theory Spec2Isabelle
  imports Main "HOL-Library.Word"
begin

section \<open>JavaScript values and strings\<close>

text \<open>
  The server is a single file, \<^verbatim>\<open>src/app.js\<close>: two Express handlers, \<^verbatim>\<open>POST /upload\<close>
  and \<^verbatim>\<open>POST /register\<close>, and the helpers they use. A JavaScript string is modelled as
  a \<^typ>\<open>string\<close>, one \<^typ>\<open>char\<close> per code unit (code units above 255 are outside the
  model). The only values on which the code calls string methods are request fields, so
  the value type has the absent field, null, a string and a plain data object.
\<close>

datatype jsval = Undefined | Null | Str string | Obj "(string \<times> jsval) list"

datatype js_error = TypeError | HeadersSent

type_synonym bytes = "8 word list"

definition startsWith :: "string \<Rightarrow> string \<Rightarrow> bool" where
  "startsWith s p = (take (length p) s = p)"

text \<open>\<^verbatim>\<open>`${x}`\<close> of a field that may be absent: the absent field prints as \<^verbatim>\<open>undefined\<close>.\<close>

definition template :: "string option \<Rightarrow> string" where
  "template x = (case x of None \<Rightarrow> ''undefined'' | Some s \<Rightarrow> s)"

text \<open>
  \<^verbatim>\<open>String.prototype.toLowerCase\<close> on code units below 256: the ASCII capitals and
  the Latin-1 capitals (0xC0 to 0xDE without the multiplication sign 0xD7) move up by 32.
\<close>

definition lower_char :: "char \<Rightarrow> char" where
  "lower_char c =
     (let n = (of_char c :: nat) in
      if (65 \<le> n \<and> n \<le> 90) \<or> (192 \<le> n \<and> n \<le> 222 \<and> n \<noteq> 215)
      then char_of (n + 32) else c)"

definition toLowerCase :: "string \<Rightarrow> string" where
  "toLowerCase s = map lower_char s"

section \<open>Regular expressions\<close>

text \<open>
  The two regular expressions of the source, \<^verbatim>\<open>/^(ftp|http|https):\/\/[^ "]+$/\<close> and
  \<^verbatim>\<open>/\D/g\<close>, need literals, alternation, sequence and one-or-more of a negated
  character class. A matcher returns every remainder the expression can leave after
  consuming a prefix of its input, in the order a backtracking matcher tries them;
  \<^verbatim>\<open>^...$\<close> without the \<^verbatim>\<open>m\<close> flag asks for the empty remainder.
\<close>

datatype regex =
    Lit string
  | Alt regex regex
  | Seq regex regex
  | PlusNoneOf "char list"

fun plus_none_of :: "char list \<Rightarrow> string \<Rightarrow> string list" where
  "plus_none_of cs [] = []"
| "plus_none_of cs (c # t) = (if c \<in> set cs then [] else plus_none_of cs t @ [t])"

fun remainders :: "regex \<Rightarrow> string \<Rightarrow> string list" where
  "remainders (Lit p) s = (if startsWith s p then [drop (length p) s] else [])"
| "remainders (Alt a b) s = remainders a s @ remainders b s"
| "remainders (Seq a b) s = concat (map (remainders b) (remainders a s))"
| "remainders (PlusNoneOf cs) s = plus_none_of cs s"

definition regex_test :: "regex \<Rightarrow> string \<Rightarrow> bool" where
  "regex_test r s = ([] \<in> set (remainders r s))"

text \<open>Line 24: \<^verbatim>\<open>const urlRegex = /^(ftp|http|https):\/\/[^ "]+$/;\<close>\<close>

definition url_schemes :: "string list" where
  "url_schemes = [''ftp'', ''http'', ''https'']"

definition urlRegex :: regex where
  "urlRegex =
     Seq (Alt (Lit ''ftp'') (Alt (Lit ''http'') (Lit ''https'')))
       (Seq (Lit ''://'') (PlusNoneOf [CHR '' '', CHR 0x22]))"

text \<open>\<^verbatim>\<open>\D\<close> is every code unit outside \<^verbatim>\<open>0\<close> to \<^verbatim>\<open>9\<close>; replacing all of them by
  the empty string keeps the digits.\<close>

definition is_digit :: "char \<Rightarrow> bool" where
  "is_digit c = (c \<in> set ''0123456789'')"

definition strip_non_digits :: "string \<Rightarrow> string" where
  "strip_non_digits s = filter is_digit s"

section \<open>Validation and normalisation\<close>

text \<open>Lines 82 to 94.\<close>

definition getMimeType :: "string \<Rightarrow> string option" where
  "getMimeType extension =
     (let e = toLowerCase extension in
      if e = ''.png'' then Some ''image/png''
      else if e = ''.jpg'' \<or> e = ''.jpeg'' then Some ''image/jpeg''
      else if e = ''.pdf'' then Some ''application/pdf''
      else None)"

text \<open>Lines 360 to 363, the website of a registration.\<close>

definition normalizeWebsite :: "string \<Rightarrow> string" where
  "normalizeWebsite companyWebsite =
     (if \<not> startsWith companyWebsite ''http://'' \<and> \<not> startsWith companyWebsite ''https://''
      then ''http://'' @ companyWebsite else companyWebsite)"

text \<open>
  Lines 366 to 381. The parameter is whatever the caller passes: \<^verbatim>\<open>replace\<close> exists on
  a string only, and calling it on anything else throws a TypeError.
\<close>

fun convertToE164 :: "jsval \<Rightarrow> js_error + string option" where
  "convertToE164 (Str phoneNumber) =
     (let digitsOnly = strip_non_digits phoneNumber in
      if startsWith digitsOnly ''1'' \<and> length digitsOnly = 11 then Inr (Some (''+'' @ digitsOnly))
      else if length digitsOnly = 10 then Inr (Some (''+1'' @ digitsOnly))
      else Inr None)"
| "convertToE164 _ = Inl TypeError"

text \<open>Line 457: \<^verbatim>\<open>website && urlRegex.test(website)\<close>; a string is truthy when not empty.\<close>

definition website_gate :: "string \<Rightarrow> bool" where
  "website_gate website = (website \<noteq> [] \<and> regex_test urlRegex website)"

section \<open>The Express response and the remote calls\<close>

text \<open>
  A handler's effects are the cookies it sets, the response it sends and the remote calls
  it issues, in order. Express sends a response once: \<^verbatim>\<open>res.send\<close> and
  \<^verbatim>\<open>res.redirect\<close> set headers first, which throws once a response has gone out.
  \<^verbatim>\<open>console.error\<close> and \<^verbatim>\<open>console.log\<close> are not recorded.
\<close>

datatype http_response = Send nat string | Redirect string

datatype form_value = FieldValue string | FileBytes bytes

record staged_upload_input =
  su_filename :: string
  su_httpMethod :: string
  su_mimeType :: string
  su_resource :: string

record file_create_input =
  fc_contentType :: string
  fc_originalSource :: string

record metafields_set_input =
  ms_key :: string
  ms_namespace :: string
  ms_ownerId :: string
  ms_type :: string
  ms_value :: "string option"

record mail =
  m_subject :: string
  m_contentType :: string
  m_content :: string
  m_toRecipients :: "string option list"
  m_from :: string
  m_saveToSentItems :: string

record address =
  ad_company :: "string option"
  ad_firstName :: "string option"
  ad_lastName :: "string option"
  ad_phone :: "string option"

record metafield =
  mf_key :: string
  mf_namespace :: string
  mf_type :: string
  mf_value :: "string option"

record customer_input =
  ci_email :: "string option"
  ci_phone :: "string option"
  ci_firstName :: "string option"
  ci_lastName :: "string option"
  ci_addresses :: "address list"
  ci_metafields :: "metafield list"

datatype remote_call =
    StagedUploadsCreate staged_upload_input
  | StagedTargetPost string "(string \<times> form_value) list"
  | FileCreate file_create_input
  | MetafieldsSet metafields_set_input
  | SendMail mail
  | CustomerCreate customer_input
  | GenerateActivationUrl string

record hstate =
  cookies :: "(string \<times> string \<times> nat) list"
  sent :: "http_response option"
  calls :: "remote_call list"
  unhandled :: bool

definition initial :: hstate where
  "initial = \<lparr>cookies = [], sent = None, calls = [], unhandled = False\<rparr>"

definition res_cookie :: "string \<Rightarrow> string \<Rightarrow> nat \<Rightarrow> hstate \<Rightarrow> hstate" where
  "res_cookie name v maxAge st = st\<lparr>cookies := cookies st @ [(name, v, maxAge)]\<rparr>"

definition res_send :: "http_response \<Rightarrow> hstate \<Rightarrow> js_error + hstate" where
  "res_send r st = (case sent st of None \<Rightarrow> Inr (st\<lparr>sent := Some r\<rparr>) | Some _ \<Rightarrow> Inl HeadersSent)"

definition call :: "remote_call \<Rightarrow> hstate \<Rightarrow> hstate" where
  "call c st = st\<lparr>calls := calls st @ [c]\<rparr>"

text \<open>An awaited promise of axios or of the Graph client either rejects (a network error
  or a status outside 2xx) or resolves with a payload.\<close>

datatype 'a remote = Rejected | Resolved 'a

definition success_url :: string where
  "success_url = ''https://[REDACTED].myshopify.com/account''"

definition internal_error :: http_response where
  "internal_error = Send 500 ''Internal Server Error''"

text \<open>
  The \<^verbatim>\<open>catch\<close> block of either handler (lines 344 to 347 and 581 to 584) sends the 500.
  If a response has already gone out that send throws inside the \<^verbatim>\<open>catch\<close> block, and
  the handler's promise rejects with nobody to handle it.
\<close>

definition catch_all :: "hstate \<Rightarrow> hstate" where
  "catch_all st =
     (case res_send internal_error st of Inr st' \<Rightarrow> st' | Inl e \<Rightarrow> st\<lparr>unhandled := True\<rparr>)"

text \<open>Lines 343 and 580: \<^verbatim>\<open>res.redirect\<close>, inside the \<^verbatim>\<open>try\<close>.\<close>

definition redirect_success :: "hstate \<Rightarrow> hstate" where
  "redirect_success st =
     (case res_send (Redirect success_url) st of Inr st' \<Rightarrow> st' | Inl e \<Rightarrow> catch_all st)"

section \<open>The upload handler\<close>

record multer_file =
  originalname :: string
  buffer :: bytes

record upload_request =
  body_customerId :: "string option"
  body_customerCompany :: "string option"
  req_file :: "multer_file option"

record staged_target =
  resourceUrl :: string
  url :: string
  parameters :: "(string \<times> string) list"

text \<open>
  What the remote parties answer. A payload of \<open>None\<close> is a response in which the path the
  handler reads (\<^verbatim>\<open>data.data.stagedUploadsCreate.stagedTargets\<close>,
  \<^verbatim>\<open>data.data.fileCreate.files\<close>) has a null link; the created files are given by
  their ids. Each call is issued at most once in a request, so one answer for each is enough.
\<close>

record upload_env =
  stagedUploads_result :: "staged_target list option remote"
  transfer_result :: "unit remote"
  createFile_result :: "string option list option remote"
  setMetafield_result :: "unit remote"
  sendMail_result :: "unit remote"

definition invalid_type_message :: string where
  "invalid_type_message = ''Invalid file type: Please submit a JPG, PNG, or PDF.''"

definition invalid_type_redirect :: string where
  "invalid_type_redirect = ''https://https://[REDACTED].myshopify.com/account''"

definition invalid_type_page :: string where
  "invalid_type_page =
     ''<script>alert('' @ [CHR 0x27] @ invalid_type_message @ [CHR 0x27]
       @ ''); window.location.href = '' @ [CHR 0x27] @ invalid_type_redirect @ [CHR 0x27]
       @ '';</script>''"

text \<open>Lines 312 to 333.\<close>

definition taxExemptDocumentUploadEmail :: "string option \<Rightarrow> string option \<Rightarrow> mail" where
  "taxExemptDocumentUploadEmail customerId customerCompany =
     \<lparr>m_subject = ''New tax exempt document uploaded for '' @ template customerCompany,
      m_contentType = ''html'',
      m_content = template customerCompany @ '' has uploaded a new tax exempt document''
        @ [CHR 0x0A] @ ''<a href='' @ [CHR 0x22]
        @ ''https://[REDACTED].myshopify.com/admin/customers/'' @ template customerId
        @ [CHR 0x22] @ ''>Click here to review the document and approve the customer</a>.'',
      m_toRecipients = [Some ''[REDACTED]''],
      m_from = ''[REDACTED]'',
      m_saveToSentItems = ''true''\<rparr>"

text \<open>Lines 310 to 343. \<open>setMetafieldQueryResult\<close> is the truthiness of the awaited value.\<close>

definition upload_notify ::
  "upload_env \<Rightarrow> string option \<Rightarrow> string option \<Rightarrow> bool \<Rightarrow> hstate \<Rightarrow> hstate" where
  "upload_notify env customerId customerCompany setMetafieldQueryResult st =
     (if setMetafieldQueryResult then
        (let st1 = call (SendMail (taxExemptDocumentUploadEmail customerId customerCompany)) st in
         case sendMail_result env of
           Rejected \<Rightarrow> catch_all st1
         | Resolved u \<Rightarrow> redirect_success st1)
      else
        (case res_send internal_error st of Inr st' \<Rightarrow> st' | Inl e \<Rightarrow> catch_all st))"

text \<open>
  Lines 262 to 308. The \<^verbatim>\<open>.catch\<close> callback of the metafield call returns what
  \<^verbatim>\<open>res.status(500).send(...)\<close> returns, the response object, which is truthy; the
  handler goes on with it.
\<close>

definition upload_setMetafield ::
  "upload_env \<Rightarrow> string option \<Rightarrow> string option \<Rightarrow> string option \<Rightarrow> hstate \<Rightarrow> hstate" where
  "upload_setMetafield env customerId customerCompany fileId st =
     (let st1 = call (MetafieldsSet
                   \<lparr>ms_key = ''tax_exempt_form'', ms_namespace = ''tax_exempt_forms'',
                    ms_ownerId = ''gid://shopify/Customer/'' @ template customerId,
                    ms_type = ''file_reference'', ms_value = fileId\<rparr>) st in
      case setMetafield_result env of
        Resolved u \<Rightarrow> upload_notify env customerId customerCompany True st1
      | Rejected \<Rightarrow>
          (case res_send internal_error st1 of
             Inr st2 \<Rightarrow> upload_notify env customerId customerCompany True st2
           | Inl e \<Rightarrow> catch_all st1))"

text \<open>Lines 208 to 260.\<close>

definition upload_createFile ::
  "upload_env \<Rightarrow> string option \<Rightarrow> string option \<Rightarrow> string \<Rightarrow> string \<Rightarrow> hstate \<Rightarrow> hstate" where
  "upload_createFile env customerId customerCompany mimeType resourceUrl' st =
     (let st1 = call (FileCreate
                   \<lparr>fc_contentType = (if mimeType = ''application/pdf'' then ''FILE'' else ''IMAGE''),
                    fc_originalSource = resourceUrl'\<rparr>) st in
      case createFile_result env of
        Rejected \<Rightarrow> catch_all st1
      | Resolved None \<Rightarrow> catch_all st1
      | Resolved (Some []) \<Rightarrow> catch_all st1
      | Resolved (Some (fileId # _)) \<Rightarrow>
          upload_setMetafield env customerId customerCompany fileId st1)"

text \<open>
  Lines 185 to 206. The \<^verbatim>\<open>.catch\<close> callback of the transfer sends the 500 and returns
  from the callback only: the awaited promise resolves and the handler goes on.
\<close>

definition upload_form :: "staged_target \<Rightarrow> multer_file \<Rightarrow> (string \<times> form_value) list" where
  "upload_form target file =
     map (\<lambda>(name, v). (name, FieldValue v)) (parameters target) @ [(''file'', FileBytes (buffer file))]"

definition upload_transfer ::
  "upload_env \<Rightarrow> string option \<Rightarrow> string option \<Rightarrow> multer_file \<Rightarrow> string \<Rightarrow> staged_target
     \<Rightarrow> hstate \<Rightarrow> hstate" where
  "upload_transfer env customerId customerCompany file mimeType target st =
     (let st1 = call (StagedTargetPost (url target) (upload_form target file)) st in
      case transfer_result env of
        Resolved u \<Rightarrow>
          upload_createFile env customerId customerCompany mimeType (resourceUrl target) st1
      | Rejected \<Rightarrow>
          (case res_send internal_error st1 of
             Inr st2 \<Rightarrow>
               upload_createFile env customerId customerCompany mimeType (resourceUrl target) st2
           | Inl e \<Rightarrow> catch_all st1))"

text \<open>Lines 149 to 178.\<close>

definition upload_stage ::
  "upload_env \<Rightarrow> string option \<Rightarrow> string option \<Rightarrow> multer_file \<Rightarrow> string \<Rightarrow> string
     \<Rightarrow> hstate \<Rightarrow> hstate" where
  "upload_stage env customerId customerCompany file fileExtension mimeType st =
     (let st1 = call (StagedUploadsCreate
                   \<lparr>su_filename = template customerCompany @ '' Tax Exempt Form'' @ fileExtension,
                    su_httpMethod = ''POST'', su_mimeType = mimeType, su_resource = ''FILE''\<rparr>) st in
      case stagedUploads_result env of
        Rejected \<Rightarrow> catch_all st1
      | Resolved None \<Rightarrow> catch_all st1
      | Resolved (Some []) \<Rightarrow> catch_all st1
      | Resolved (Some (target # _)) \<Rightarrow>
          upload_transfer env customerId customerCompany file mimeType target st1)"

text \<open>
  Lines 100 to 147. \<^verbatim>\<open>path.extname\<close> belongs to Node, not to this repository, and is a
  parameter. The body parsers and multer leave an object in \<^verbatim>\<open>req.body\<close>, whose two
  fields are strings or absent; without a file, \<^verbatim>\<open>file.originalname\<close> throws.
\<close>

definition upload :: "(string \<Rightarrow> string) \<Rightarrow> upload_request \<Rightarrow> upload_env \<Rightarrow> hstate" where
  "upload extname req env =
     (let customerId = body_customerId req; customerCompany = body_customerCompany req;
          st = res_cookie ''uploadMessage'' ''Your file was uploaded successfully!'' 3000 initial in
      case req_file req of
        None \<Rightarrow> catch_all st
      | Some file \<Rightarrow>
          (let fileExtension = extname (originalname file) in
           case getMimeType fileExtension of
             None \<Rightarrow>
               (case res_send (Send 200 invalid_type_page) st of
                  Inr st' \<Rightarrow> st' | Inl e \<Rightarrow> catch_all st)
           | Some mimeType \<Rightarrow>
               upload_stage env customerId customerCompany file fileExtension mimeType st))"

text \<open>
  A stand-in for \<^verbatim>\<open>path.extname\<close> on file names without a slash: from the last dot on,
  where a dot that is the first character of the name does not count, and the name \<open>..\<close>
  has no extension.
\<close>

fun dot_suffix :: "string \<Rightarrow> string" where
  "dot_suffix [] = []"
| "dot_suffix (c # t) =
     (if CHR ''.'' \<in> set t then dot_suffix t
      else if c = CHR ''.'' then c # t else [])"

definition last_dot_suffix :: "string \<Rightarrow> string" where
  "last_dot_suffix name =
     (case name of [] \<Rightarrow> [] | c # t \<Rightarrow> if name = ''..'' then [] else dot_suffix t)"

section \<open>The registration handler\<close>

record register_request =
  body_companyName :: "string option"
  body_firstName :: "string option"
  body_lastName :: "string option"
  body_email :: "string option"
  body_companyWebsite :: "string option"
  body_phoneNumber :: "string option"

text \<open>
  The answers of the remote parties. For the customer-create call, \<open>None\<close> is a payload
  without \<^verbatim>\<open>data.data.customerCreate\<close>, \<open>Some None\<close> a null customer and
  \<open>Some (Some i)\<close> a customer with id \<open>i\<close>; for the activation call, \<open>None\<close> is a payload
  without \<^verbatim>\<open>data.data.customerGenerateAccountActivationUrl\<close> and \<open>Some u\<close> one whose
  \<^verbatim>\<open>accountActivationUrl\<close> is \<open>u\<close>, possibly null.
\<close>

record register_env =
  customerCreate_result :: "string option option remote"
  activationUrl_result :: "string option option remote"
  activationMail_result :: "unit remote"
  staffMail_result :: "unit remote"

definition field :: "string option \<Rightarrow> jsval" where
  "field x = (case x of None \<Rightarrow> Undefined | Some s \<Rightarrow> Str s)"

text \<open>\<^verbatim>\<open>`${x}`\<close> of a value that may be null.\<close>

definition template_null :: "string option \<Rightarrow> string" where
  "template_null x = (case x of None \<Rightarrow> ''null'' | Some s \<Rightarrow> s)"

text \<open>Lines 426 to 464.\<close>

definition createCustomerVariables ::
  "string option \<Rightarrow> string option \<Rightarrow> string option \<Rightarrow> string option \<Rightarrow> string
     \<Rightarrow> string option \<Rightarrow> customer_input" where
  "createCustomerVariables companyName firstName lastName email website phone =
     \<lparr>ci_email = email, ci_phone = phone, ci_firstName = firstName, ci_lastName = lastName,
      ci_addresses =
        [\<lparr>ad_company = companyName, ad_firstName = firstName, ad_lastName = lastName,
          ad_phone = phone\<rparr>],
      ci_metafields =
        [\<lparr>mf_key = ''company'', mf_namespace = ''customer-info'',
          mf_type = ''single_line_text_field'', mf_value = companyName\<rparr>,
         \<lparr>mf_key = ''phone_number'', mf_namespace = ''customer-info'',
          mf_type = ''single_line_text_field'', mf_value = phone\<rparr>]
        @ (if website_gate website
           then [\<lparr>mf_key = ''company_website'', mf_namespace = ''customer-info'',
                  mf_type = ''url'', mf_value = Some website\<rparr>]
           else [])\<rparr>"

text \<open>Lines 515 to 559.\<close>

definition accountActivationEmail :: "string option \<Rightarrow> string option \<Rightarrow> mail" where
  "accountActivationEmail email activationUrl =
     \<lparr>m_subject = ''Account Activation'',
      m_contentType = ''Text'',
      m_content = ''Click the following link to activate your account:'' @ [CHR 0x0A]
        @ template_null activationUrl,
      m_toRecipients = [email],
      m_from = ''[REDACTED]'',
      m_saveToSentItems = ''true''\<rparr>"

definition newCustomerEmail :: "string option \<Rightarrow> string \<Rightarrow> mail" where
  "newCustomerEmail companyName customerId =
     \<lparr>m_subject = ''New customer: '' @ template companyName,
      m_contentType = ''html'',
      m_content = template companyName @ '' has created an account!'' @ [CHR 0x0A]
        @ ''<a href='' @ [CHR 0x22] @ ''https://[REDACTED].myshopify.com/admin/customers/''
        @ customerId @ [CHR 0x22] @ ''>Click here to view the customer</a>.'',
      m_toRecipients = [Some ''rjarmon@gmail.com''],
      m_from = ''[REDACTED]'',
      m_saveToSentItems = ''true''\<rparr>"

text \<open>
  Lines 484 to 580. \<open>customerId\<close> is the customer's id or null; an id is truthy when it is
  not the empty string. The inner \<^verbatim>\<open>try\<close> around the two sends logs a failure and falls
  through to the redirect.
\<close>

definition register_afterCreate ::
  "register_env \<Rightarrow> string option \<Rightarrow> string option \<Rightarrow> string option \<Rightarrow> hstate \<Rightarrow> hstate" where
  "register_afterCreate env companyName email customerId st =
     (case customerId of
        Some cid \<Rightarrow>
          (if cid \<noteq> [] then
             (let st1 = call (GenerateActivationUrl cid) st in
              case activationUrl_result env of
                Rejected \<Rightarrow> catch_all st1
              | Resolved None \<Rightarrow> catch_all st1
              | Resolved (Some activationUrl) \<Rightarrow>
                  (let st2 = call (SendMail (accountActivationEmail email activationUrl)) st1 in
                   case activationMail_result env of
                     Rejected \<Rightarrow> redirect_success st2
                   | Resolved u \<Rightarrow>
                       (let st3 = call (SendMail (newCustomerEmail companyName cid)) st2 in
                        case staffMail_result env of
                          Rejected \<Rightarrow> redirect_success st3
                        | Resolved u' \<Rightarrow> redirect_success st3)))
           else redirect_success st)
      | None \<Rightarrow> redirect_success st)"

text \<open>Lines 386 to 482, from the point where \<open>website\<close> and \<open>phone\<close> are known.\<close>

definition register_create ::
  "register_env \<Rightarrow> register_request \<Rightarrow> string \<Rightarrow> string option \<Rightarrow> hstate \<Rightarrow> hstate" where
  "register_create env req website phone st =
     (let companyName = body_companyName req; email = body_email req;
          st1 = call (CustomerCreate
                  (createCustomerVariables companyName (body_firstName req) (body_lastName req)
                     email website phone)) st in
      case customerCreate_result env of
        Rejected \<Rightarrow> catch_all st1
      | Resolved None \<Rightarrow> catch_all st1
      | Resolved (Some customer) \<Rightarrow> register_afterCreate env companyName email customer st1)"

text \<open>
  Lines 354 to 384. Line 384 is \<^verbatim>\<open>convertToE164({ phoneNumber })\<close>: the argument is an
  object with the one property \<^verbatim>\<open>phoneNumber\<close>, not the string.
\<close>

definition register :: "register_request \<Rightarrow> register_env \<Rightarrow> hstate" where
  "register req env =
     (case body_companyWebsite req of
        None \<Rightarrow> catch_all initial
      | Some companyWebsite \<Rightarrow>
          (let website = normalizeWebsite companyWebsite in
           case convertToE164 (Obj [(''phoneNumber'', field (body_phoneNumber req))]) of
             Inl e \<Rightarrow> catch_all initial
           | Inr phone \<Rightarrow> register_create env req website phone initial))"

section \<open>Notions of the specification and example inputs\<close>

text \<open>
  Whitespace, as the specification's word is read here: the code units below 256 that
  JavaScript's \<^verbatim>\<open>\s\<close> matches (tab, line feed, vertical tab, form feed, carriage return,
  space, no-break space).
\<close>

definition spec_whitespace :: "char \<Rightarrow> bool" where
  "spec_whitespace c =
     (c \<in> set [CHR 0x09, CHR 0x0A, CHR 0x0B, CHR 0x0C, CHR 0x0D, CHR 0x20, CHR 0xA0])"

text \<open>A scheme prefix, as the specification's word is read here: one of the schemes that
  line 24 names, followed by \<^verbatim>\<open>://\<close>.\<close>

definition spec_scheme_prefix :: "string \<Rightarrow> bool" where
  "spec_scheme_prefix s = list_ex (\<lambda>sch. startsWith s (sch @ ''://'')) url_schemes"

definition example_file :: multer_file where
  "example_file = \<lparr>originalname = ''form.pdf'', buffer = [0x25, 0x50, 0x44, 0x46]\<rparr>"

definition example_upload :: upload_request where
  "example_upload =
     \<lparr>body_customerId = Some ''42'', body_customerCompany = Some ''Acme'',
      req_file = Some example_file\<rparr>"

definition gif_file :: multer_file where
  "gif_file = \<lparr>originalname = ''form.gif'', buffer = [0x47, 0x49, 0x46]\<rparr>"

definition gif_upload :: upload_request where
  "gif_upload =
     \<lparr>body_customerId = Some ''42'', body_customerCompany = Some ''Acme'',
      req_file = Some gif_file\<rparr>"

definition example_target :: staged_target where
  "example_target =
     \<lparr>resourceUrl = ''https://storage.example/tmp/form.pdf'',
      url = ''https://storage.example/upload'',
      parameters = [(''key'', ''tmp/form.pdf''), (''policy'', ''p0''), (''acl'', ''private'')]\<rparr>"

definition all_resolve :: upload_env where
  "all_resolve =
     \<lparr>stagedUploads_result = Resolved (Some [example_target]),
      transfer_result = Resolved (),
      createFile_result = Resolved (Some [Some ''gid://shopify/GenericFile/1'']),
      setMetafield_result = Resolved (),
      sendMail_result = Resolved ()\<rparr>"

definition transfer_fails :: upload_env where
  "transfer_fails = all_resolve\<lparr>transfer_result := Rejected\<rparr>"

definition mail_fails :: upload_env where
  "mail_fails = all_resolve\<lparr>sendMail_result := Rejected\<rparr>"

definition acme_request :: register_request where
  "acme_request =
     \<lparr>body_companyName = Some ''Acme'', body_firstName = Some ''A'', body_lastName = Some ''B'',
      body_email = Some ''a@b.com'', body_companyWebsite = Some ''acme.com'',
      body_phoneNumber = Some ''5551234567''\<rparr>"

definition no_customer_env :: register_env where
  "no_customer_env =
     \<lparr>customerCreate_result = Resolved (Some None), activationUrl_result = Rejected,
      activationMail_result = Rejected, staffMail_result = Rejected\<rparr>"

section \<open>Strings and the URL expression\<close>

lemma startsWith_iff: "startsWith s p \<longleftrightarrow> (\<exists>r. s = p @ r)"
proof
  assume "startsWith s p"
  then have "s = p @ drop (length p) s"
    unfolding startsWith_def by (metis append_take_drop_id)
  then show "\<exists>r. s = p @ r" ..
next
  assume "\<exists>r. s = p @ r"
  then show "startsWith s p" by (auto simp: startsWith_def)
qed

lemma plus_none_of_empty:
  "[] \<in> set (plus_none_of cs s) \<longleftrightarrow> s \<noteq> [] \<and> set s \<inter> set cs = {}"
  by (induction s) auto

lemma remainders_Seq_empty:
  "[] \<in> set (remainders (Seq a b) s)
     \<longleftrightarrow> (\<exists>m. m \<in> set (remainders a s) \<and> [] \<in> set (remainders b m))"
  by auto

lemma remainders_Lit: "m \<in> set (remainders (Lit p) s) \<longleftrightarrow> s = p @ m"
  by (auto simp: startsWith_iff)

lemma remainders_schemes:
  "m \<in> set (remainders (Alt (Lit ''ftp'') (Alt (Lit ''http'') (Lit ''https''))) s)
     \<longleftrightarrow> (\<exists>sch \<in> set url_schemes. s = sch @ m)"
  unfolding remainders.simps(2) set_append Un_iff remainders_Lit url_schemes_def
  by auto

lemma urlRegex_test_iff:
  "regex_test urlRegex s \<longleftrightarrow>
     (\<exists>sch \<in> set url_schemes. \<exists>rest. s = sch @ ''://'' @ rest \<and> rest \<noteq> []
        \<and> CHR '' '' \<notin> set rest \<and> CHR 0x22 \<notin> set rest)"
proof -
  have "regex_test urlRegex s \<longleftrightarrow>
     (\<exists>m. (\<exists>sch \<in> set url_schemes. s = sch @ m) \<and>
        (\<exists>rest. m = ''://'' @ rest \<and> rest \<noteq> []
           \<and> set rest \<inter> set [CHR '' '', CHR 0x22] = {}))"
    unfolding regex_test_def urlRegex_def remainders_Seq_empty remainders_schemes remainders_Lit
      remainders.simps(4) plus_none_of_empty ..
  also have "\<dots> \<longleftrightarrow>
     (\<exists>sch \<in> set url_schemes. \<exists>rest. s = sch @ ''://'' @ rest \<and> rest \<noteq> []
        \<and> CHR '' '' \<notin> set rest \<and> CHR 0x22 \<notin> set rest)"
    by auto
  finally show ?thesis .
qed

text \<open>A match is never empty, so the truthiness test of line 457 adds nothing to the
  expression.\<close>

lemma website_gate_regex: "website_gate s = regex_test urlRegex s"
  by (auto simp: website_gate_def urlRegex_test_iff)

lemma scheme_chars: "sch \<in> set url_schemes \<Longrightarrow> CHR '' '' \<notin> set sch \<and> CHR 0x22 \<notin> set sch"
  by (auto simp: url_schemes_def)

lemma getMimeType_pdf: "getMimeType ''.pdf'' = Some ''application/pdf''"
  by (simp add: getMimeType_def toLowerCase_def lower_char_def)

lemma getMimeType_upper_pdf: "getMimeType ''.PDF'' = Some ''application/pdf''"
  by code_simp

lemma getMimeType_gif: "getMimeType ''.gif'' = None"
  by (simp add: getMimeType_def toLowerCase_def lower_char_def)

lemmas upload_defs = upload_def upload_stage_def upload_transfer_def upload_createFile_def
  upload_setMetafield_def upload_notify_def catch_all_def redirect_success_def res_send_def
  res_cookie_def call_def initial_def internal_error_def Let_def

lemmas upload_examples = last_dot_suffix_def example_upload_def example_file_def gif_upload_def
  gif_file_def all_resolve_def
  example_target_def transfer_fails_def mail_fails_def

lemmas register_defs = register_def register_create_def register_afterCreate_def catch_all_def
  redirect_success_def res_send_def call_def initial_def internal_error_def field_def Let_def

section \<open>The phone normalizer\<close>

text \<open>
  C5: on every string, \<open>convertToE164\<close> first strips all non-digit characters; if 11 digits
  remain and the first is 1, it returns \<open>+\<close> followed by them; if exactly 10 remain, it
  returns \<open>+1\<close> followed by them; in every other case, which is any other number of digits
  and also 11 digits of which the first is not 1, it returns null. The three cases cover
  every string.
\<close>

theorem convertToE164_string:
  "strip_non_digits raw = filter (\<lambda>c. c \<in> set ''0123456789'') raw
   \<and> (length (strip_non_digits raw) = 11 \<and> startsWith (strip_non_digits raw) ''1''
        \<longrightarrow> convertToE164 (Str raw) = Inr (Some (''+'' @ strip_non_digits raw)))
   \<and> (length (strip_non_digits raw) = 10
        \<longrightarrow> convertToE164 (Str raw) = Inr (Some (''+1'' @ strip_non_digits raw)))
   \<and> (\<not> (length (strip_non_digits raw) = 11 \<and> startsWith (strip_non_digits raw) ''1'')
        \<and> length (strip_non_digits raw) \<noteq> 10
        \<longrightarrow> convertToE164 (Str raw) = Inr None)"
proof (intro conjI)
  show "strip_non_digits raw = filter (\<lambda>c. c \<in> set ''0123456789'') raw"
    unfolding strip_non_digits_def by (rule filter_cong) (simp_all add: is_digit_def)
qed (simp_all add: Let_def)

text \<open>The three examples of the claim: \<open>15551234567\<close> and \<open>555-123-4567\<close> both give
  \<open>+15551234567\<close>, and \<open>123\<close> gives null; so does \<open>25551234567\<close>, 11 digits of which
  the first is not 1.\<close>

theorem convertToE164_string_witness:
  "convertToE164 (Str ''15551234567'') = Inr (Some ''+15551234567'')
   \<and> convertToE164 (Str ''555-123-4567'') = Inr (Some ''+15551234567'')
   \<and> convertToE164 (Str ''123'') = Inr None
   \<and> convertToE164 (Str ''25551234567'') = Inr None"
proof -
  have d1: "strip_non_digits ''15551234567'' = ''15551234567''"
    and d2: "strip_non_digits ''555-123-4567'' = ''5551234567''"
    and d3: "strip_non_digits ''123'' = ''123''"
    and d4: "strip_non_digits ''25551234567'' = ''25551234567''"
    by (simp_all add: strip_non_digits_def is_digit_def)
  have h1: "length (strip_non_digits ''15551234567'') = 11
      \<and> startsWith (strip_non_digits ''15551234567'') ''1''"
    by (simp add: d1 startsWith_def)
  have h2: "length (strip_non_digits ''555-123-4567'') = 10"
    by (simp add: d2)
  have h3: "\<not> (length (strip_non_digits ''123'') = 11
        \<and> startsWith (strip_non_digits ''123'') ''1'')
      \<and> length (strip_non_digits ''123'') \<noteq> 10"
    by (simp add: d3)
  have h4: "\<not> (length (strip_non_digits ''25551234567'') = 11
        \<and> startsWith (strip_non_digits ''25551234567'') ''1'')
      \<and> length (strip_non_digits ''25551234567'') \<noteq> 10"
    by (simp add: d4 startsWith_def)
  from convertToE164_string [of "''15551234567''"] h1
  have r1: "convertToE164 (Str ''15551234567'')
      = Inr (Some (''+'' @ strip_non_digits ''15551234567''))"
    by blast
  from convertToE164_string [of "''555-123-4567''"] h2
  have r2: "convertToE164 (Str ''555-123-4567'')
      = Inr (Some (''+1'' @ strip_non_digits ''555-123-4567''))"
    by blast
  from convertToE164_string [of "''123''"] h3
  have r3: "convertToE164 (Str ''123'') = Inr None"
    by blast
  from convertToE164_string [of "''25551234567''"] h4
  have r4: "convertToE164 (Str ''25551234567'') = Inr None"
    by blast
  show ?thesis
    unfolding r1 r2 r3 r4 d1 d2 by simp
qed

text \<open>What the normalizer returns is never anything but null or twelve characters,
  \<open>+1\<close> and ten digits.\<close>

lemma convertToE164_shape:
  assumes "convertToE164 (Str raw) = Inr (Some p)"
  shows "length p = 12 \<and> startsWith p ''+1'' \<and> list_all is_digit (drop 1 p)"
proof -
  have digits: "list_all is_digit (strip_non_digits raw)"
    by (simp add: strip_non_digits_def list_all_iff)
  show ?thesis
  proof (cases "startsWith (strip_non_digits raw) ''1'' \<and> length (strip_non_digits raw) = 11")
    case True
    then obtain r where r: "strip_non_digits raw = ''1'' @ r"
      unfolding startsWith_iff by blast
    from True assms have p: "p = ''+'' @ strip_non_digits raw"
      by (simp add: Let_def)
    from True digits show ?thesis
      unfolding p by (simp add: r startsWith_def)
  next
    case False
    with assms have len: "length (strip_non_digits raw) = 10"
      and p: "p = ''+1'' @ strip_non_digits raw"
      by (auto simp: Let_def split: if_splits)
    from digits show ?thesis
      unfolding p by (simp add: len startsWith_def is_digit_def)
  qed
qed

section \<open>The website gate and the website normalizer\<close>

text \<open>
  C6, amended: the gate of line 457 accepts exactly the strings \<open>scheme://rest\<close> whose scheme
  is one of ftp, http, https and whose rest is not empty and has neither a space (code unit
  32) nor a double quote; other whitespace does not matter. Every string with a space or a
  double quote is rejected, and so is every string that does not start with one of the
  three schemes and \<open>://\<close>.
\<close>

theorem website_gate_accepts:
  "(website_gate s \<longleftrightarrow>
      (\<exists>sch \<in> set url_schemes. \<exists>rest. s = sch @ ''://'' @ rest \<and> rest \<noteq> []
         \<and> CHR '' '' \<notin> set rest \<and> CHR 0x22 \<notin> set rest))
   \<and> (CHR '' '' \<in> set s \<or> CHR 0x22 \<in> set s \<longrightarrow> \<not> website_gate s)
   \<and> ((\<forall>sch \<in> set url_schemes. \<not> startsWith s (sch @ ''://'')) \<longrightarrow> \<not> website_gate s)"
proof (intro conjI)
  show iff: "website_gate s \<longleftrightarrow>
      (\<exists>sch \<in> set url_schemes. \<exists>rest. s = sch @ ''://'' @ rest \<and> rest \<noteq> []
         \<and> CHR '' '' \<notin> set rest \<and> CHR 0x22 \<notin> set rest)"
    unfolding website_gate_regex by (rule urlRegex_test_iff)
  show "CHR '' '' \<in> set s \<or> CHR 0x22 \<in> set s \<longrightarrow> \<not> website_gate s"
  proof (intro impI notI)
    assume bad: "CHR '' '' \<in> set s \<or> CHR 0x22 \<in> set s" and "website_gate s"
    then obtain sch rest where sch: "sch \<in> set url_schemes" and s: "s = sch @ ''://'' @ rest"
      and rest: "CHR '' '' \<notin> set rest" "CHR 0x22 \<notin> set rest"
      unfolding iff by blast
    from scheme_chars [OF sch] rest have "CHR '' '' \<notin> set s \<and> CHR 0x22 \<notin> set s"
      unfolding s by simp
    with bad show False by blast
  qed
  show "(\<forall>sch \<in> set url_schemes. \<not> startsWith s (sch @ ''://'')) \<longrightarrow> \<not> website_gate s"
  proof (intro impI notI)
    assume none: "\<forall>sch \<in> set url_schemes. \<not> startsWith s (sch @ ''://'')" and "website_gate s"
    then obtain sch rest where sch: "sch \<in> set url_schemes" and s: "s = sch @ ''://'' @ rest"
      unfolding iff by blast
    have "startsWith s (sch @ ''://'')"
      unfolding s startsWith_iff by simp
    with none sch show False by blast
  qed
qed

text \<open>An accepted website, one rejected for a space and one rejected for its scheme.\<close>

theorem website_gate_accepts_witness:
  "website_gate ''http://acme.com'' \<and> \<not> website_gate ''http://acme inc.com''
   \<and> \<not> website_gate ''gopher://acme.com''"
proof (intro conjI)
  have "''http'' \<in> set url_schemes \<and> ''http://acme.com'' = ''http'' @ ''://'' @ ''acme.com''
      \<and> ''acme.com'' \<noteq> [] \<and> CHR '' '' \<notin> set ''acme.com'' \<and> CHR 0x22 \<notin> set ''acme.com''"
    by (simp add: url_schemes_def)
  then have "\<exists>sch \<in> set url_schemes. \<exists>rest. ''http://acme.com'' = sch @ ''://'' @ rest
      \<and> rest \<noteq> [] \<and> CHR '' '' \<notin> set rest \<and> CHR 0x22 \<notin> set rest"
    by blast
  with website_gate_accepts [of "''http://acme.com''"] show "website_gate ''http://acme.com''"
    by blast
  have "CHR '' '' \<in> set ''http://acme inc.com'' \<or> CHR 0x22 \<in> set ''http://acme inc.com''"
    by simp
  with website_gate_accepts [of "''http://acme inc.com''"]
  show "\<not> website_gate ''http://acme inc.com''"
    by blast
  have "\<forall>sch \<in> set url_schemes. \<not> startsWith ''gopher://acme.com'' (sch @ ''://'')"
    by (simp add: url_schemes_def startsWith_def)
  with website_gate_accepts [of "''gopher://acme.com''"]
  show "\<not> website_gate ''gopher://acme.com''"
    by blast
qed

text \<open>C6 as stated fails: a tab is whitespace, and the gate accepts a website with a tab
  in it, since the character class of line 24 leaves out the space and the double quote
  only.\<close>

theorem website_gate_accepts_tab:
  "website_gate (''http://a'' @ [CHR 0x09] @ ''b'')
   \<and> CHR 0x09 \<in> set (''http://a'' @ [CHR 0x09] @ ''b'') \<and> spec_whitespace (CHR 0x09)"
  by (simp add: website_gate_def regex_test_def urlRegex_def startsWith_def spec_whitespace_def)

text \<open>
  C7, amended: \<open>normalizeWebsite\<close> returns its input unchanged when the input starts with
  \<open>http://\<close> or \<open>https://\<close>, and otherwise returns it with \<open>http://\<close> in front; either way
  the result starts with one of the two.
\<close>

theorem normalizeWebsite_cases:
  "(startsWith s ''http://'' \<or> startsWith s ''https://'' \<longrightarrow> normalizeWebsite s = s)
   \<and> (\<not> startsWith s ''http://'' \<and> \<not> startsWith s ''https://''
        \<longrightarrow> normalizeWebsite s = ''http://'' @ s)
   \<and> (startsWith (normalizeWebsite s) ''http://''
        \<or> startsWith (normalizeWebsite s) ''https://'')"
  by (auto simp: normalizeWebsite_def startsWith_def)

text \<open>The two examples of the claim.\<close>

theorem normalizeWebsite_cases_witness:
  "normalizeWebsite ''example.com'' = ''http://example.com''
   \<and> normalizeWebsite ''https://example.com'' = ''https://example.com''"
proof -
  have h1: "\<not> startsWith ''example.com'' ''http://''
      \<and> \<not> startsWith ''example.com'' ''https://''"
    by (simp add: startsWith_def)
  have h2: "startsWith ''https://example.com'' ''http://''
      \<or> startsWith ''https://example.com'' ''https://''"
    by (simp add: startsWith_def)
  from normalizeWebsite_cases [of "''example.com''"] h1
  have "normalizeWebsite ''example.com'' = ''http://'' @ ''example.com''"
    by blast
  moreover from normalizeWebsite_cases [of "''https://example.com''"] h2
  have "normalizeWebsite ''https://example.com'' = ''https://example.com''"
    by blast
  ultimately show ?thesis by simp
qed

text \<open>C7 as stated fails: a website that already has the scheme prefix \<open>ftp://\<close>, a scheme
  the gate accepts, is not returned unchanged.\<close>

theorem normalizeWebsite_ftp:
  "spec_scheme_prefix ''ftp://example.com''
   \<and> normalizeWebsite ''ftp://example.com'' = ''http://ftp://example.com''
   \<and> normalizeWebsite ''ftp://example.com'' \<noteq> ''ftp://example.com''"
  by (simp add: spec_scheme_prefix_def url_schemes_def normalizeWebsite_def startsWith_def)

section \<open>The upload handler\<close>

text \<open>
  C9: every upload request that reaches the handler, whatever its file and whatever the
  remote parties answer, gets the cookie \<open>uploadMessage\<close> with the value
  \<open>Your file was uploaded successfully!\<close> and maxAge 3000, and no other cookie; and a
  response is sent, which carries it.
\<close>

theorem upload_cookie_always:
  "cookies (upload extname req env)
     = [(''uploadMessage'', ''Your file was uploaded successfully!'', 3000)]
   \<and> sent (upload extname req env) \<noteq> None"
  by (simp add: upload_defs split: option.splits remote.splits list.splits)

text \<open>
  C10: when the extension of the uploaded file does not classify, the response is the page
  with status 200 whose script alerts \<open>Invalid file type: Please submit a JPG, PNG, or PDF.\<close>
  and then sets \<open>window.location.href\<close> to a URL that starts with \<open>https://https://\<close>, which
  is not the destination of the redirect on success; no remote call is issued.
\<close>

theorem upload_invalid_type_response:
  assumes "req_file req = Some f" and "getMimeType (extname (originalname f)) = None"
  shows "sent (upload extname req env) = Some (Send 200 invalid_type_page)
     \<and> calls (upload extname req env) = []
     \<and> invalid_type_page =
         ''<script>alert('Invalid file type: Please submit a JPG, PNG, or PDF.'); window.location.href = 'https://https://[REDACTED].myshopify.com/account';</script>''
     \<and> invalid_type_redirect = ''https://'' @ success_url
     \<and> invalid_type_redirect \<noteq> success_url"
proof (intro conjI)
  from assms show "sent (upload extname req env) = Some (Send 200 invalid_type_page)"
    by (simp add: upload_defs)
  from assms show "calls (upload extname req env) = []"
    by (simp add: upload_defs)
qed (simp_all add: invalid_type_page_def invalid_type_message_def invalid_type_redirect_def
    success_url_def)

text \<open>A file named \<open>form.gif\<close>.\<close>

theorem upload_invalid_type_response_witness:
  "sent (upload last_dot_suffix gif_upload all_resolve) = Some (Send 200 invalid_type_page)
   \<and> calls (upload last_dot_suffix gif_upload all_resolve) = []"
proof -
  have h1: "req_file gif_upload = Some gif_file"
    by (simp add: gif_upload_def)
  have h2: "getMimeType (last_dot_suffix (originalname gif_file)) = None"
    by (simp add: gif_file_def last_dot_suffix_def getMimeType_gif)
  from upload_invalid_type_response
    [where extname = last_dot_suffix and req = gif_upload and f = gif_file and env = all_resolve,
      OF h1 h2]
  show ?thesis
    by blast
qed

text \<open>
  C8: when the extension of the uploaded file classifies and the staging call answers with a
  target, the second call of the handler is the POST to the target's URL, and its form has
  the target's parameters as fields, in the order of the staging response, and then the
  bytes of the file as the last field, named \<open>file\<close>.
\<close>

theorem upload_form_order:
  assumes "req_file req = Some f" and "getMimeType (extname (originalname f)) = Some m"
    and "stagedUploads_result env = Resolved (Some (target # others))"
  shows "take 2 (calls (upload extname req env)) =
    [StagedUploadsCreate
       \<lparr>su_filename = template (body_customerCompany req) @ '' Tax Exempt Form''
          @ extname (originalname f),
        su_httpMethod = ''POST'', su_mimeType = m, su_resource = ''FILE''\<rparr>,
     StagedTargetPost (url target)
       (map (\<lambda>(name, v). (name, FieldValue v)) (parameters target)
          @ [(''file'', FileBytes (buffer f))])]"
  using assms
  by (simp add: upload_defs upload_form_def split: option.splits remote.splits list.splits)

text \<open>A file named \<open>form.pdf\<close> and a target with the parameters key, policy, acl.\<close>

theorem upload_form_order_witness:
  "take 2 (calls (upload last_dot_suffix example_upload all_resolve)) =
    [StagedUploadsCreate
       \<lparr>su_filename = ''Acme Tax Exempt Form.pdf'', su_httpMethod = ''POST'',
        su_mimeType = ''application/pdf'', su_resource = ''FILE''\<rparr>,
     StagedTargetPost ''https://storage.example/upload''
       [(''key'', FieldValue ''tmp/form.pdf''), (''policy'', FieldValue ''p0''),
        (''acl'', FieldValue ''private''), (''file'', FileBytes [0x25, 0x50, 0x44, 0x46])]]"
proof -
  have h1: "req_file example_upload = Some example_file"
    by (simp add: example_upload_def)
  have h2: "getMimeType (last_dot_suffix (originalname example_file)) = Some ''application/pdf''"
    by (simp add: example_file_def last_dot_suffix_def getMimeType_pdf)
  have h3: "stagedUploads_result all_resolve = Resolved (Some (example_target # []))"
    by (simp add: all_resolve_def)
  from upload_form_order
    [where extname = last_dot_suffix and req = example_upload and f = example_file, OF h1 h2 h3]
  show ?thesis
    by (simp add: example_upload_def example_file_def example_target_def template_def
        last_dot_suffix_def)
qed

text \<open>
  C3, amended: when the file classifies and every step through the metafield link succeeds,
  the response follows the notification send, which is awaited inside the handler's
  \<^verbatim>\<open>try\<close>: if the send fails the response is the 500 \<open>Internal Server Error\<close>, and if it
  succeeds the response is the redirect to the success destination. The send is the last
  call either way.
\<close>

theorem upload_notification_decides:
  assumes "req_file req = Some f" and "getMimeType (extname (originalname f)) = Some m"
    and "stagedUploads_result env = Resolved (Some (target # others))"
    and "transfer_result env = Resolved ()"
    and "createFile_result env = Resolved (Some (fileId # files))"
    and "setMetafield_result env = Resolved ()"
  shows "(sendMail_result env = Rejected
            \<longrightarrow> sent (upload extname req env) = Some (Send 500 ''Internal Server Error''))
     \<and> (sendMail_result env = Resolved ()
            \<longrightarrow> sent (upload extname req env) = Some (Redirect success_url))
     \<and> last (calls (upload extname req env))
          = SendMail (taxExemptDocumentUploadEmail (body_customerId req) (body_customerCompany req))
     \<and> \<not> unhandled (upload extname req env)"
  using assms
  by (simp add: upload_defs split: option.splits remote.splits list.splits)

text \<open>The example upload, once with a notification send that fails and once with one that
  succeeds.\<close>

theorem upload_notification_decides_witness:
  "sent (upload last_dot_suffix example_upload mail_fails)
     = Some (Send 500 ''Internal Server Error'')
   \<and> sent (upload last_dot_suffix example_upload all_resolve) = Some (Redirect success_url)"
proof -
  have h1: "req_file example_upload = Some example_file"
    by (simp add: example_upload_def)
  have h2: "getMimeType (last_dot_suffix (originalname example_file)) = Some ''application/pdf''"
    by (simp add: example_file_def last_dot_suffix_def getMimeType_pdf)
  have a3: "stagedUploads_result all_resolve = Resolved (Some (example_target # []))"
    and a4: "transfer_result all_resolve = Resolved ()"
    and a5: "createFile_result all_resolve
        = Resolved (Some (Some ''gid://shopify/GenericFile/1'' # []))"
    and a6: "setMetafield_result all_resolve = Resolved ()"
    and a7: "sendMail_result all_resolve = Resolved ()"
    by (simp_all add: all_resolve_def)
  have b3: "stagedUploads_result mail_fails = Resolved (Some (example_target # []))"
    and b4: "transfer_result mail_fails = Resolved ()"
    and b5: "createFile_result mail_fails
        = Resolved (Some (Some ''gid://shopify/GenericFile/1'' # []))"
    and b6: "setMetafield_result mail_fails = Resolved ()"
    and b7: "sendMail_result mail_fails = Rejected"
    by (simp_all add: mail_fails_def all_resolve_def)
  from upload_notification_decides
    [where extname = last_dot_suffix and req = example_upload and f = example_file,
      OF h1 h2 b3 b4 b5 b6] b7
  have "sent (upload last_dot_suffix example_upload mail_fails)
      = Some (Send 500 ''Internal Server Error'')"
    by blast
  moreover from upload_notification_decides
    [where extname = last_dot_suffix and req = example_upload and f = example_file,
      OF h1 h2 a3 a4 a5 a6] a7
  have "sent (upload last_dot_suffix example_upload all_resolve) = Some (Redirect success_url)"
    by blast
  ultimately show ?thesis by blast
qed

text \<open>C3 as stated fails: on the example upload every step through the metafield link
  succeeds, the notification send fails, and the response is the 500, not the redirect.\<close>

theorem upload_notification_failure_is_500:
  "stagedUploads_result mail_fails = Resolved (Some [example_target])
   \<and> transfer_result mail_fails = Resolved ()
   \<and> createFile_result mail_fails = Resolved (Some [Some ''gid://shopify/GenericFile/1''])
   \<and> setMetafield_result mail_fails = Resolved ()
   \<and> sendMail_result mail_fails = Rejected
   \<and> sent (upload last_dot_suffix example_upload mail_fails)
        = Some (Send 500 ''Internal Server Error'')
   \<and> sent (upload last_dot_suffix example_upload mail_fails) \<noteq> Some (Redirect success_url)"
  by (simp add: upload_defs upload_examples getMimeType_pdf)

text \<open>
  C2, at an input on which the code departs from it: the example upload with a transfer that
  fails. The response is the 500, but the handler goes on: after the staging call and the
  transfer it issues the file-create call, the metafield-set call and the notification
  send, and the redirect that follows throws, in the \<^verbatim>\<open>try\<close> and again in the
  \<^verbatim>\<open>catch\<close>.
\<close>

theorem upload_transfer_failure_goes_on:
  "transfer_result transfer_fails = Rejected
   \<and> sent (upload last_dot_suffix example_upload transfer_fails)
        = Some (Send 500 ''Internal Server Error'')
   \<and> drop 2 (calls (upload last_dot_suffix example_upload transfer_fails)) =
       [FileCreate
          \<lparr>fc_contentType = ''FILE'',
           fc_originalSource = ''https://storage.example/tmp/form.pdf''\<rparr>,
        MetafieldsSet
          \<lparr>ms_key = ''tax_exempt_form'', ms_namespace = ''tax_exempt_forms'',
           ms_ownerId = ''gid://shopify/Customer/42'', ms_type = ''file_reference'',
           ms_value = Some ''gid://shopify/GenericFile/1''\<rparr>,
        SendMail (taxExemptDocumentUploadEmail (Some ''42'') (Some ''Acme''))]
   \<and> unhandled (upload last_dot_suffix example_upload transfer_fails)"
  by (simp add: upload_defs upload_examples getMimeType_pdf template_def)

section \<open>The registration handler\<close>

text \<open>
  Whatever the request and whatever the remote parties would answer, the handler stops at
  line 361 (no website) or at line 384 (the normalizer called on an object): it issues no
  remote call and answers 500.
\<close>

lemma register_always_fails:
  "register req env =
     \<lparr>cookies = [], sent = Some (Send 500 ''Internal Server Error''), calls = [],
      unhandled = False\<rparr>"
  by (simp add: register_defs split: option.splits)

text \<open>
  C1, at the request of the claim: the normalizer is called on the object
  \<^verbatim>\<open>{ phoneNumber: '5551234567' }\<close> and throws; no customer-create call is issued and the
  response is the 500.
\<close>

theorem register_acme_fails:
  "convertToE164 (Obj [(''phoneNumber'', Str ''5551234567'')]) = Inl TypeError
   \<and> register acme_request env =
       \<lparr>cookies = [], sent = Some (Send 500 ''Internal Server Error''), calls = [],
        unhandled = False\<rparr>"
  by (simp add: register_defs acme_request_def)

text \<open>
  C4, at an input on which the code departs from it: the request of C1, with a commerce
  platform that would answer the customer-create call with a null customer. The handler
  never gets to that call; no mail is sent, but the response is the 500 and not the
  redirect.
\<close>

theorem register_no_customer_fails:
  "customerCreate_result no_customer_env = Resolved (Some None)
   \<and> calls (register acme_request no_customer_env) = []
   \<and> sent (register acme_request no_customer_env) = Some (Send 500 ''Internal Server Error'')
   \<and> sent (register acme_request no_customer_env) \<noteq> Some (Redirect success_url)"
  by (simp add: register_defs acme_request_def no_customer_env_def)

text \<open>
  The rest of the handler, from line 386 on, entered with a phone number: were the
  normalizer given the string of the request of C1, the customer-create call would carry
  the phone \<open>+15551234567\<close> and the website metafield \<open>http://acme.com\<close>; and on an answer
  without a customer, that call would be the only one and the response the redirect.
\<close>

lemma acme_variables:
  "convertToE164 (Str ''5551234567'') = Inr (Some ''+15551234567'')
   \<and> ci_phone (createCustomerVariables (Some ''Acme'') (Some ''A'') (Some ''B'') (Some ''a@b.com'')
        (normalizeWebsite ''acme.com'') (Some ''+15551234567'')) = Some ''+15551234567''
   \<and> \<lparr>mf_key = ''company_website'', mf_namespace = ''customer-info'', mf_type = ''url'',
       mf_value = Some ''http://acme.com''\<rparr>
     \<in> set (ci_metafields (createCustomerVariables (Some ''Acme'') (Some ''A'') (Some ''B'')
          (Some ''a@b.com'') (normalizeWebsite ''acme.com'') (Some ''+15551234567'')))"
  by (simp add: createCustomerVariables_def normalizeWebsite_def startsWith_def website_gate_def
      regex_test_def urlRegex_def strip_non_digits_def is_digit_def)

lemma register_create_no_customer:
  assumes "customerCreate_result env = Resolved (Some None)"
  shows "calls (register_create env req website phone initial) =
           [CustomerCreate (createCustomerVariables (body_companyName req) (body_firstName req)
              (body_lastName req) (body_email req) website phone)]
         \<and> sent (register_create env req website phone initial) = Some (Redirect success_url)"
  using assms by (simp add: register_defs)

end
